theory Spec2Isabelle
  imports Main "HOL-Library.Word"
begin

section \<open>Values of the Go program\<close>

text \<open>
  A Go \<open>float64\<close> is kept as its IEEE 754 bit pattern. The program never computes with
  the coordinates: it compares them with the constant \<open>0\<close> and copies them into requests.
  The comparison \<open>x == 0\<close> holds for the two zeros (\<open>+0\<close> and \<open>-0\<close>) and for nothing
  else (a NaN is unequal to everything), and \<open>x != 0\<close> is its negation.
\<close>

type_synonym float64 = "64 word"

definition f64_eq_zero :: "float64 \<Rightarrow> bool" where
  "f64_eq_zero x = (x = 0 \<or> x = 0x8000000000000000)"

definition f64_ne_zero :: "float64 \<Rightarrow> bool" where
  "f64_ne_zero x = (\<not> f64_eq_zero x)"

text \<open>The bit patterns of the decimal literals used in the scenarios.\<close>

definition f64_1 :: float64 where
  "f64_1 = 0x3FF0000000000000"

definition f64_10 :: float64 where
  "f64_10 = 0x4024000000000000"

definition f64_40 :: float64 where
  "f64_40 = 0x4044000000000000"

definition f64_neg73 :: float64 where
  "f64_neg73 = 0xC052400000000000"

text \<open>
  A Go \<open>error\<close> made by \<open>errors.New\<close> or \<open>fmt.Errorf\<close> carries its message only.
  Dereferencing a nil pointer panics.
\<close>

datatype error = Error string | NilDereference

section \<open>Package \<open>placesvc\<close> (\<open>pkg/awslocation/placesvc/service.go\<close>)\<close>

text \<open>
  The fields \<open>log\<close> and \<open>svc\<close> of \<open>Config\<close> hold the logger and the SDK client; they
  take no part in building a request and are left out.
\<close>

record Config =
  region :: string
  profile :: string
  indexService :: string
  indexName :: string
  intendedUse :: string
  language :: string
  pricingPlan :: string

record LatLon =
  Latitude :: float64
  Longitude :: float64

record Box =
  X1 :: float64
  Y1 :: float64
  X2 :: float64
  Y2 :: float64

text \<open>Pointer fields are options (\<open>None\<close> is nil); a slice is a list.\<close>

record SuggestionSearch =
  Text :: "string option"
  BiasPosition :: "LatLon option"
  FilterBBox :: "Box option"
  FilterCountries :: "string list"
  Language :: "string option"

subsection \<open>The request structures of the SDK\<close>

text \<open>
  The input structures of the Location Service client, with the fields the source
  assigns or names. A field the source does not assign keeps Go's zero value: nil for
  a pointer or a slice, written \<open>None\<close>.
\<close>

record DataSourceConfiguration =
  IntendedUse :: string

record CreatePlaceIndexInput =
  cpi_DataSource :: "string option"
  cpi_DataSourceConfiguration :: "DataSourceConfiguration option"
  cpi_Description :: "string option"
  cpi_IndexName :: "string option"
  cpi_PricingPlan :: string
  cpi_Tags :: "string \<rightharpoonup> string"

record DeletePlaceIndexInput =
  del_IndexName :: "string option"

record DescribePlaceIndexInput =
  dpi_IndexName :: "string option"

record SearchPlaceIndexForPositionInput =
  spp_IndexName :: "string option"
  spp_Language :: "string option"
  spp_Position :: "float64 list"

record SearchPlaceIndexForSuggestionsInput =
  sps_IndexName :: "string option"
  sps_Text :: "string option"
  sps_BiasPosition :: "float64 list option"
  sps_FilterBBox :: "float64 list option"
  sps_FilterCountries :: "string list"
  sps_Language :: "string option"

record SearchPlaceIndexForTextInput =
  spt_IndexName :: "string option"
  spt_Text :: "string option"
  spt_BiasPosition :: "float64 list option"
  spt_FilterBBox :: "float64 list option"
  spt_FilterCountries :: "string list"
  spt_Language :: "string option"

record UpdatePlaceIndexInput =
  upi_IndexName :: "string option"
  upi_DataSourceConfiguration :: "DataSourceConfiguration option"
  upi_Description :: "string option"
  upi_PricingPlan :: string

text \<open>
  The Location Backend is outside the program. A method of \<open>Config\<close> either returns an
  error before any call, or issues exactly one call; the model returns that call.
\<close>

datatype backend_call =
    CallCreatePlaceIndex CreatePlaceIndexInput
  | CallDeletePlaceIndex DeletePlaceIndexInput
  | CallDescribePlaceIndex DescribePlaceIndexInput
  | CallListPlaceIndexes
  | CallSearchPlaceIndexForPosition SearchPlaceIndexForPositionInput
  | CallSearchPlaceIndexForSuggestions SearchPlaceIndexForSuggestionsInput
  | CallSearchPlaceIndexForText SearchPlaceIndexForTextInput
  | CallUpdatePlaceIndex UpdatePlaceIndexInput

subsection \<open>Construction of the configuration\<close>

type_synonym Option = "Config \<Rightarrow> Config"

definition SetAWSRegion :: "string \<Rightarrow> Option" where
  "SetAWSRegion r = (\<lambda>config. config\<lparr>region := r\<rparr>)"

definition SetAWSProfile :: "string \<Rightarrow> Option" where
  "SetAWSProfile p = (\<lambda>config. config\<lparr>profile := p\<rparr>)"

definition SetIndexName :: "string \<Rightarrow> Option" where
  "SetIndexName n = (\<lambda>config. config\<lparr>indexName := n\<rparr>)"

definition SetIndexService :: "string \<Rightarrow> Option" where
  "SetIndexService s = (\<lambda>config. config\<lparr>indexService := s\<rparr>)"

definition SetLanguage :: "string \<Rightarrow> Option" where
  "SetLanguage l = (\<lambda>config. config\<lparr>language := l\<rparr>)"

text \<open>\<open>SetLogger\<close> stores the logger, which the model does not keep.\<close>

definition SetLogger :: Option where
  "SetLogger = (\<lambda>config. config)"

definition zero_Config :: Config where
  "zero_Config = \<lparr>region = [], profile = [], indexService = [], indexName = [],
     intendedUse = [], language = [], pricingPlan = []\<rparr>"

text \<open>
  \<open>New\<close>: the options are applied in order to the zero configuration, then the empty
  fields get their defaults. The first argument is the value of the environment
  variable \<open>AWS_REGION\<close>. Loading the SDK configuration is outside the model.
\<close>

definition New :: "string \<Rightarrow> Option list \<Rightarrow> Config" where
  "New env_AWS_REGION opts =
     (let config = foldl (\<lambda>c opt. opt c) zero_Config opts;
          config = (if region config = [] then config\<lparr>region := env_AWS_REGION\<rparr> else config);
          config = (if indexService config = [] then config\<lparr>indexService := ''Here''\<rparr> else config);
          config = (if intendedUse config = [] then config\<lparr>intendedUse := ''SingleUse''\<rparr> else config);
          config = (if language config = [] then config\<lparr>language := ''en''\<rparr> else config);
          config = (if pricingPlan config = [] then config\<lparr>pricingPlan := ''RequestBasedUsage''\<rparr> else config)
      in config)"

subsection \<open>The eight operations\<close>

definition sanity :: "Config \<Rightarrow> error option" where
  "sanity c = (if indexName c = [] then Some (Error ''indexName not set'') else None)"

definition CreatePlaceIndex ::
  "Config \<Rightarrow> string \<Rightarrow> (string \<rightharpoonup> string) option \<Rightarrow> error + backend_call" where
  "CreatePlaceIndex config description tags =
     (case sanity config of
        Some err \<Rightarrow> Inl err
      | None \<Rightarrow>
          (case tags of
             None \<Rightarrow> Inl NilDereference
           | Some t \<Rightarrow>
               Inr (CallCreatePlaceIndex
                 \<lparr>cpi_DataSource = Some (indexService config),
                  cpi_DataSourceConfiguration = Some \<lparr>IntendedUse = intendedUse config\<rparr>,
                  cpi_Description = Some description,
                  cpi_IndexName = Some (indexName config),
                  cpi_PricingPlan = pricingPlan config,
                  cpi_Tags = t\<rparr>)))"

definition DeletePlaceIndex :: "Config \<Rightarrow> error + backend_call" where
  "DeletePlaceIndex config =
     (case sanity config of
        Some err \<Rightarrow> Inl err
      | None \<Rightarrow> Inr (CallDeletePlaceIndex \<lparr>del_IndexName = Some (indexName config)\<rparr>))"

definition DescribePlaceIndex :: "Config \<Rightarrow> string \<Rightarrow> error + backend_call" where
  "DescribePlaceIndex config name =
     (if name = [] then
        (case sanity config of
           Some err \<Rightarrow> Inl err
         | None \<Rightarrow> Inr (CallDescribePlaceIndex \<lparr>dpi_IndexName = Some (indexName config)\<rparr>))
      else Inr (CallDescribePlaceIndex \<lparr>dpi_IndexName = Some name\<rparr>))"

definition ListPlaceIndexes :: "Config \<Rightarrow> error + backend_call" where
  "ListPlaceIndexes config = Inr CallListPlaceIndexes"

definition SearchPlaceIndexForPosition :: "Config \<Rightarrow> LatLon option \<Rightarrow> error + backend_call" where
  "SearchPlaceIndexForPosition config latLon =
     (case latLon of
        None \<Rightarrow> Inl NilDereference
      | Some ll \<Rightarrow>
          Inr (CallSearchPlaceIndexForPosition
            \<lparr>spp_IndexName = Some (indexName config),
             spp_Language = Some (language config),
             spp_Position = [Longitude ll, Latitude ll]\<rparr>))"

definition SearchPlaceIndexForSuggestions ::
  "Config \<Rightarrow> SuggestionSearch option \<Rightarrow> error + backend_call" where
  "SearchPlaceIndexForSuggestions config search =
     (case search of
        None \<Rightarrow> Inl NilDereference
      | Some s \<Rightarrow>
          Inr (CallSearchPlaceIndexForSuggestions
            \<lparr>sps_IndexName = Some (indexName config),
             sps_Text = Text s,
             sps_BiasPosition = None,
             sps_FilterBBox = None,
             sps_FilterCountries = FilterCountries s,
             sps_Language = Some (language config)\<rparr>))"

definition SearchPlaceIndexForText ::
  "Config \<Rightarrow> SuggestionSearch option \<Rightarrow> error + backend_call" where
  "SearchPlaceIndexForText config search =
     (case search of
        None \<Rightarrow> Inl NilDereference
      | Some s \<Rightarrow>
          Inr (CallSearchPlaceIndexForText
            \<lparr>spt_IndexName = Some (indexName config),
             spt_Text = Text s,
             spt_BiasPosition = None,
             spt_FilterBBox = None,
             spt_FilterCountries = FilterCountries s,
             spt_Language = Some (language config)\<rparr>))"

definition UpdatePlaceIndex :: "Config \<Rightarrow> string \<Rightarrow> error + backend_call" where
  "UpdatePlaceIndex config description =
     (case sanity config of
        Some err \<Rightarrow> Inl err
      | None \<Rightarrow>
          Inr (CallUpdatePlaceIndex
            \<lparr>upi_IndexName = Some (indexName config),
             upi_DataSourceConfiguration = Some \<lparr>IntendedUse = intendedUse config\<rparr>,
             upi_Description = Some description,
             upi_PricingPlan = pricingPlan config\<rparr>))"

section \<open>Package \<open>loc\<close> (\<open>subcmds/loc/root.go\<close>, \<open>subcmds/loc/setup.go\<close>)\<close>

text \<open>
  The flags of the command line. Every field of the Go structure \<open>Flags\<close> is here
  under its own name after the prefix \<open>flags_\<close>. The command-line parser fills them;
  a flag that is not given keeps its default (the empty string, \<open>0\<close>, the empty slice).
\<close>

record Flags =
  flags_countries :: "string list"
  flags_description :: string
  flags_dotenvPath :: string
  flags_indexName :: string
  flags_json :: bool
  flags_lat :: float64
  flags_loglevel :: string
  flags_lon :: float64
  flags_text :: string
  flags_x1 :: float64
  flags_x2 :: float64
  flags_y1 :: float64
  flags_y2 :: float64
  flags_tags :: "string list"

subsection \<open>The pre-run validators\<close>

text \<open>\<open>PreRunE\<close> of \<open>cmdSuggestion\<close>; \<open>None\<close> is the nil error.\<close>

definition cmdSuggestion_PreRunE :: "Flags \<Rightarrow> error option" where
  "cmdSuggestion_PreRunE flags =
     (if f64_ne_zero (flags_lat flags) \<and> f64_eq_zero (flags_lon flags) then
        Some (Error ''latitude is set but longitude is not'')
      else if f64_eq_zero (flags_lat flags) \<and> f64_ne_zero (flags_lon flags) then
        Some (Error ''longitude is set but latitude is not'')
      else if f64_ne_zero (flags_x1 flags) \<and>
          (f64_eq_zero (flags_x2 flags) \<or> f64_eq_zero (flags_y1 flags) \<or> f64_eq_zero (flags_y2 flags)) then
        Some (Error ''x1 is set but x2 or y1 or y2 is not'')
      else if f64_ne_zero (flags_x2 flags) \<and>
          (f64_eq_zero (flags_x1 flags) \<or> f64_eq_zero (flags_y1 flags) \<or> f64_eq_zero (flags_y2 flags)) then
        Some (Error ''x2 is set but x1 or y1 or y2 is not'')
      else if f64_ne_zero (flags_y1 flags) \<and>
          (f64_eq_zero (flags_x1 flags) \<or> f64_eq_zero (flags_x2 flags) \<or> f64_eq_zero (flags_y2 flags)) then
        Some (Error ''y1 is set but x1 or x2 or y2 is not'')
      else if f64_ne_zero (flags_y2 flags) \<and>
          (f64_eq_zero (flags_x1 flags) \<or> f64_eq_zero (flags_x2 flags) \<or> f64_eq_zero (flags_y1 flags)) then
        Some (Error ''y2 is set but x1 or x2 or y1 is not'')
      else None)"

text \<open>\<open>PreRunE\<close> of \<open>cmdText\<close>: the source repeats the six tests.\<close>

definition cmdText_PreRunE :: "Flags \<Rightarrow> error option" where
  "cmdText_PreRunE flags =
     (if f64_ne_zero (flags_lat flags) \<and> f64_eq_zero (flags_lon flags) then
        Some (Error ''latitude is set but longitude is not'')
      else if f64_eq_zero (flags_lat flags) \<and> f64_ne_zero (flags_lon flags) then
        Some (Error ''longitude is set but latitude is not'')
      else if f64_ne_zero (flags_x1 flags) \<and>
          (f64_eq_zero (flags_x2 flags) \<or> f64_eq_zero (flags_y1 flags) \<or> f64_eq_zero (flags_y2 flags)) then
        Some (Error ''x1 is set but x2 or y1 or y2 is not'')
      else if f64_ne_zero (flags_x2 flags) \<and>
          (f64_eq_zero (flags_x1 flags) \<or> f64_eq_zero (flags_y1 flags) \<or> f64_eq_zero (flags_y2 flags)) then
        Some (Error ''x2 is set but x1 or y1 or y2 is not'')
      else if f64_ne_zero (flags_y1 flags) \<and>
          (f64_eq_zero (flags_x1 flags) \<or> f64_eq_zero (flags_x2 flags) \<or> f64_eq_zero (flags_y2 flags)) then
        Some (Error ''y1 is set but x1 or x2 or y2 is not'')
      else if f64_ne_zero (flags_y2 flags) \<and>
          (f64_eq_zero (flags_x1 flags) \<or> f64_eq_zero (flags_x2 flags) \<or> f64_eq_zero (flags_y1 flags)) then
        Some (Error ''y2 is set but x1 or x2 or y1 is not'')
      else None)"

subsection \<open>Reading the configuration\<close>

text \<open>
  The function \<open>setup\<close> of the source is \<open>setup_loc\<close> here. What it reads from outside
  the program: whether the file named by \<open>--dotenv\<close>
  exists, whether the configuration file could be read, the two settings in it, and
  the environment variable \<open>AWS_REGION\<close>.
\<close>

record Environment =
  dotenv_stat_ok :: bool
  read_in_config_ok :: bool
  AwsProfile :: string
  AwsRegion :: string
  AWS_REGION :: string

text \<open>
  \<open>log.Fatal\<close> ends the process; the model returns the logged message as the error.
  The options given to \<open>New\<close> are the four of the source, in its order.
\<close>

definition setup_loc :: "Environment \<Rightarrow> Flags \<Rightarrow> error + Config" where
  "setup_loc env flags =
     (if flags_dotenvPath flags \<noteq> [] \<and> \<not> dotenv_stat_ok env then
        Inl (Error ''unable to load dotenv'')
      else if \<not> read_in_config_ok env then
        Inl (Error ''failed to read dotenv file'')
      else if AwsProfile env = [] then
        Inl (Error ''AwsProfile not set'')
      else if AwsRegion env = [] then
        Inl (Error ''AwsRegion not set in yaml config file'')
      else
        Inr (New (AWS_REGION env)
          [SetLogger,
           SetAWSProfile (AwsProfile env),
           SetAWSRegion (AwsRegion env),
           SetIndexName (flags_indexName flags)]))"

subsection \<open>\<open>strings.Split\<close> with a one-byte separator\<close>

text \<open>
  \<open>strings.Split(s, sep)\<close> cuts \<open>s\<close> at every occurrence of \<open>sep\<close>: it looks for the
  first occurrence, keeps what is before it, and goes on after it; what is left when
  there is no further occurrence is the last element. The source calls it with the
  separator \<open>"="\<close>, one byte, which is the case modelled.
\<close>

function Split :: "string \<Rightarrow> char \<Rightarrow> string list" where
  "Split s sep =
     (case dropWhile (\<lambda>c. c \<noteq> sep) s of
        [] \<Rightarrow> [s]
      | _ # rest \<Rightarrow> takeWhile (\<lambda>c. c \<noteq> sep) s # Split rest sep)"
  by pat_completeness auto
termination
proof (relation "measure (\<lambda>(s, sep). length s)")
  show "wf (measure (\<lambda>(s, sep). length s))"
    by simp
next
  fix s :: string and sep :: char and x21 :: char and x22 :: string
  assume a: "dropWhile (\<lambda>c. c \<noteq> sep) s = x21 # x22"
  have "length (dropWhile (\<lambda>c. c \<noteq> sep) s) \<le> length s"
    by (rule length_dropWhile_le)
  with a have "length x22 < length s"
    by simp
  then show "((x22, sep), (s, sep)) \<in> measure (\<lambda>(s, sep). length s)"
    by simp
qed

declare Split.simps [simp del]

subsection \<open>The commands\<close>

text \<open>
  The loop of \<open>runCreatePlaceIndex\<close> over \<open>flags.tags\<close>: the first tag that does not
  split into two parts ends the command with an error; otherwise the entry is stored
  (a later entry for the same key replaces the earlier one).
\<close>

fun runCreatePlaceIndex_tags ::
  "(string \<rightharpoonup> string) \<Rightarrow> string list \<Rightarrow> error + (string \<rightharpoonup> string)" where
  "runCreatePlaceIndex_tags tags [] = Inr tags"
| "runCreatePlaceIndex_tags tags (tag # rest) =
     (let parts = Split tag CHR ''=''
      in if length parts \<noteq> 2 then Inl (Error (''invalid tag: '' @ tag))
         else runCreatePlaceIndex_tags (tags(parts ! 0 \<mapsto> parts ! 1)) rest)"

definition runCreatePlaceIndex :: "Config \<Rightarrow> Flags \<Rightarrow> error + backend_call" where
  "runCreatePlaceIndex location flags =
     (case runCreatePlaceIndex_tags Map.empty (flags_tags flags) of
        Inl err \<Rightarrow> Inl err
      | Inr tags \<Rightarrow> CreatePlaceIndex location (flags_description flags) (Some tags))"

definition runDeletePlaceIndex :: "Config \<Rightarrow> Flags \<Rightarrow> error + backend_call" where
  "runDeletePlaceIndex location flags = DeletePlaceIndex location"

definition runDescribeIndex :: "Config \<Rightarrow> Flags \<Rightarrow> error + backend_call" where
  "runDescribeIndex location flags = DescribePlaceIndex location (flags_indexName flags)"

definition runListIndexes :: "Config \<Rightarrow> Flags \<Rightarrow> error + backend_call" where
  "runListIndexes location flags = ListPlaceIndexes location"

definition runSearchPosition :: "Config \<Rightarrow> Flags \<Rightarrow> error + backend_call" where
  "runSearchPosition location flags =
     SearchPlaceIndexForPosition location
       (Some \<lparr>Latitude = flags_lat flags, Longitude = flags_lon flags\<rparr>)"

definition runSearchSuggestion :: "Config \<Rightarrow> Flags \<Rightarrow> error + backend_call" where
  "runSearchSuggestion location flags =
     SearchPlaceIndexForSuggestions location
       (Some \<lparr>Text = Some (flags_text flags),
              BiasPosition = Some \<lparr>Latitude = flags_lat flags, Longitude = flags_lon flags\<rparr>,
              FilterBBox = Some \<lparr>X1 = flags_x1 flags, Y1 = flags_y1 flags,
                                  X2 = flags_x2 flags, Y2 = flags_y2 flags\<rparr>,
              FilterCountries = flags_countries flags,
              Language = None\<rparr>)"

definition runSearchText :: "Config \<Rightarrow> Flags \<Rightarrow> error + backend_call" where
  "runSearchText location flags =
     SearchPlaceIndexForText location
       (Some \<lparr>Text = Some (flags_text flags),
              BiasPosition = Some \<lparr>Latitude = flags_lat flags, Longitude = flags_lon flags\<rparr>,
              FilterBBox = Some \<lparr>X1 = flags_x1 flags, Y1 = flags_y1 flags,
                                  X2 = flags_x2 flags, Y2 = flags_y2 flags\<rparr>,
              FilterCountries = flags_countries flags,
              Language = None\<rparr>)"

definition runUpdatePlaceIndex :: "Config \<Rightarrow> Flags \<Rightarrow> error + backend_call" where
  "runUpdatePlaceIndex location flags = UpdatePlaceIndex location (flags_description flags)"

text \<open>
  A command as the dispatcher runs it: the persistent pre-run hook of the root command
  (\<open>setup_loc\<close>), the command's own \<open>PreRunE\<close> when it has one, then \<open>Run\<close>, which calls
  \<open>setup_loc\<close> again and the command's function on the configuration it stored.
  Two stops of the real program are not in this model, which therefore issues a call
  on some inputs where the program does not: the dispatcher's refusal of a command
  line that lacks a flag marked as required (checked between \<open>PreRunE\<close> and \<open>Run\<close>),
  and the panic of \<open>New\<close> when the SDK configuration cannot be loaded.
\<close>

definition run_command ::
  "(Flags \<Rightarrow> error option) \<Rightarrow> (Config \<Rightarrow> Flags \<Rightarrow> error + backend_call) \<Rightarrow>
   Environment \<Rightarrow> Flags \<Rightarrow> error + backend_call" where
  "run_command preRunE run env flags =
     (case setup_loc env flags of
        Inl err \<Rightarrow> Inl err
      | Inr _ \<Rightarrow>
          (case preRunE flags of
             Some err \<Rightarrow> Inl err
           | None \<Rightarrow>
               (case setup_loc env flags of
                  Inl err \<Rightarrow> Inl err
                | Inr location \<Rightarrow> run location flags)))"

definition cmdCreate :: "Environment \<Rightarrow> Flags \<Rightarrow> error + backend_call" where
  "cmdCreate = run_command (\<lambda>flags. None) runCreatePlaceIndex"

definition cmdDelete :: "Environment \<Rightarrow> Flags \<Rightarrow> error + backend_call" where
  "cmdDelete = run_command (\<lambda>flags. None) runDeletePlaceIndex"

definition cmdDescribe :: "Environment \<Rightarrow> Flags \<Rightarrow> error + backend_call" where
  "cmdDescribe = run_command (\<lambda>flags. None) runDescribeIndex"

definition cmdList :: "Environment \<Rightarrow> Flags \<Rightarrow> error + backend_call" where
  "cmdList = run_command (\<lambda>flags. None) runListIndexes"

definition cmdPosition :: "Environment \<Rightarrow> Flags \<Rightarrow> error + backend_call" where
  "cmdPosition = run_command (\<lambda>flags. None) runSearchPosition"

definition cmdSuggestion :: "Environment \<Rightarrow> Flags \<Rightarrow> error + backend_call" where
  "cmdSuggestion = run_command cmdSuggestion_PreRunE runSearchSuggestion"

definition cmdText :: "Environment \<Rightarrow> Flags \<Rightarrow> error + backend_call" where
  "cmdText = run_command cmdText_PreRunE runSearchText"

definition cmdUpdate :: "Environment \<Rightarrow> Flags \<Rightarrow> error + backend_call" where
  "cmdUpdate = run_command (\<lambda>flags. None) runUpdatePlaceIndex"

section \<open>Inputs and notions used in the statements\<close>

text \<open>
  The flags as the function \<open>init\<close> declares them: every default is the zero value,
  except the log level.
\<close>

definition init_Flags :: Flags where
  "init_Flags = \<lparr>flags_countries = [], flags_description = [], flags_dotenvPath = [],
     flags_indexName = [], flags_json = False, flags_lat = 0, flags_loglevel = ''info'',
     flags_lon = 0, flags_text = [], flags_x1 = 0, flags_x2 = 0, flags_y1 = 0, flags_y2 = 0,
     flags_tags = []\<rparr>"

text \<open>An environment in which the configuration file is read and gives both settings.\<close>

definition example_Environment :: Environment where
  "example_Environment = \<lparr>dotenv_stat_ok = True, read_in_config_ok = True,
     AwsProfile = ''default'', AwsRegion = ''us-east-1'', AWS_REGION = []\<rparr>"

text \<open>
  The all-or-nothing rule of the specification for the bias position and for the
  bounding box: the components of a group are all zero or all nonzero.
\<close>

definition latlon_all_or_nothing :: "Flags \<Rightarrow> bool" where
  "latlon_all_or_nothing flags =
     (f64_eq_zero (flags_lat flags) = f64_eq_zero (flags_lon flags))"

definition bbox_all_or_nothing :: "Flags \<Rightarrow> bool" where
  "bbox_all_or_nothing flags =
     (f64_eq_zero (flags_x1 flags) \<and> f64_eq_zero (flags_x2 flags) \<and>
        f64_eq_zero (flags_y1 flags) \<and> f64_eq_zero (flags_y2 flags)
      \<or> f64_ne_zero (flags_x1 flags) \<and> f64_ne_zero (flags_x2 flags) \<and>
        f64_ne_zero (flags_y1 flags) \<and> f64_ne_zero (flags_y2 flags))"

text \<open>
  The data source a request carries. Only the request of create-index has such a
  field.
\<close>

fun request_DataSource :: "backend_call \<Rightarrow> string option" where
  "request_DataSource (CallCreatePlaceIndex r) = cpi_DataSource r"
| "request_DataSource _ = None"

text \<open>
  The entry \<open>(k, v)\<close> a tag string \<open>k=v\<close> stands for: what is before the first \<open>=\<close> and
  what is after it.
\<close>

definition tag_entry :: "string \<Rightarrow> string \<times> string" where
  "tag_entry tag =
     (takeWhile (\<lambda>c. c \<noteq> CHR ''='') tag, tl (dropWhile (\<lambda>c. c \<noteq> CHR ''='') tag))"

section \<open>Auxiliary facts\<close>

lemmas f64_defs = f64_eq_zero_def f64_ne_zero_def f64_1_def f64_10_def f64_40_def f64_neg73_def

lemma Split_no_sep: "sep \<notin> set s \<Longrightarrow> Split s sep = [s]"
proof -
  assume "sep \<notin> set s"
  then have d: "dropWhile (\<lambda>c. c \<noteq> sep) s = []" by auto
  show ?thesis by (subst Split.simps) (simp add: d)
qed

lemma Split_cut: "sep \<notin> set k \<Longrightarrow> Split (k @ sep # v) sep = k # Split v sep"
proof -
  assume a: "sep \<notin> set k"
  then have d: "dropWhile (\<lambda>c. c \<noteq> sep) (k @ sep # v) = sep # v"
    by (induction k) auto
  from a have t: "takeWhile (\<lambda>c. c \<noteq> sep) (k @ sep # v) = k"
    by (induction k) auto
  show ?thesis
    by (subst Split.simps) (simp add: d t)
qed

lemma length_Split: "length (Split s sep) = Suc (count_list s sep)"
proof (induction s sep rule: Split.induct)
  case (1 s sep)
  show ?case
  proof (cases "dropWhile (\<lambda>c. c \<noteq> sep) s")
    case Nil
    then have "sep \<notin> set s" by (metis (mono_tags, lifting) dropWhile_eq_Nil_conv)
    then show ?thesis by (simp add: Split_no_sep)
  next
    case (Cons x rest)
    have s: "s = takeWhile (\<lambda>c. c \<noteq> sep) s @ x # rest"
      using Cons by (metis takeWhile_dropWhile_id)
    have x: "x = sep" using Cons by (metis (mono_tags, lifting) hd_dropWhile list.sel(1) list.distinct(1))
    have n: "sep \<notin> set (takeWhile (\<lambda>c. c \<noteq> sep) s)"
      by (auto dest: set_takeWhileD)
    have "count_list s sep = count_list (takeWhile (\<lambda>c. c \<noteq> sep) s @ x # rest) sep"
      using s by simp
    also have "\<dots> = Suc (count_list rest sep)"
      using n x by (simp add: count_list_0_iff)
    finally have c: "count_list s sep = Suc (count_list rest sep)" .
    have "Split s sep = takeWhile (\<lambda>c. c \<noteq> sep) s # Split rest sep"
      by (subst Split.simps) (simp add: Cons)
    then show ?thesis using "1.IH"[OF Cons] c by simp
  qed
qed

lemma Split_one:
  assumes "count_list s sep = 1"
  shows "Split s sep = [takeWhile (\<lambda>c. c \<noteq> sep) s, tl (dropWhile (\<lambda>c. c \<noteq> sep) s)]"
proof (cases "dropWhile (\<lambda>c. c \<noteq> sep) s")
  case Nil
  then have "sep \<notin> set s" by (metis (mono_tags, lifting) dropWhile_eq_Nil_conv)
  then have "count_list s sep = 0" by (simp add: count_list_0_iff)
  with assms show ?thesis by simp
next
  case (Cons x rest)
  have s: "s = takeWhile (\<lambda>c. c \<noteq> sep) s @ x # rest"
    using Cons by (metis takeWhile_dropWhile_id)
  have x: "x = sep"
    using Cons by (metis (mono_tags, lifting) hd_dropWhile list.sel(1) list.distinct(1))
  have n: "sep \<notin> set (takeWhile (\<lambda>c. c \<noteq> sep) s)"
    by (auto dest: set_takeWhileD)
  have "count_list s sep = count_list (takeWhile (\<lambda>c. c \<noteq> sep) s @ x # rest) sep"
    using s by simp
  also have "\<dots> = Suc (count_list rest sep)"
    using n x by (simp add: count_list_0_iff)
  finally have "count_list rest sep = 0"
    using assms by simp
  then have r: "sep \<notin> set rest"
    by (simp add: count_list_0_iff)
  have "Split s sep = takeWhile (\<lambda>c. c \<noteq> sep) s # Split rest sep"
    by (subst Split.simps) (simp add: Cons)
  then show ?thesis
    using r Cons by (simp add: Split_no_sep)
qed

lemma tags_step_ok:
  assumes "count_list tag CHR ''='' = 1"
  shows "runCreatePlaceIndex_tags tags (tag # rest) =
         runCreatePlaceIndex_tags (tags(fst (tag_entry tag) \<mapsto> snd (tag_entry tag))) rest"
  by (simp add: Split_one [OF assms] tag_entry_def)

lemma tags_step_bad:
  assumes "count_list tag CHR ''='' \<noteq> 1"
  shows "runCreatePlaceIndex_tags tags (tag # rest) = Inl (Error (''invalid tag: '' @ tag))"
  using assms by (simp add: length_Split)

lemma tags_all_ok:
  "\<forall>t \<in> set ts. count_list t CHR ''='' = 1 \<Longrightarrow>
   runCreatePlaceIndex_tags tags ts = Inr (tags ++ map_of (rev (map tag_entry ts)))"
proof (induction ts arbitrary: tags)
  case Nil
  then show ?case by simp
next
  case (Cons t ts)
  have one: "count_list t CHR ''='' = 1"
    using Cons.prems by simp
  have rest: "\<forall>t \<in> set ts. count_list t CHR ''='' = 1"
    using Cons.prems by simp
  have "runCreatePlaceIndex_tags tags (t # ts) =
        Inr (tags(fst (tag_entry t) \<mapsto> snd (tag_entry t)) ++ map_of (rev (map tag_entry ts)))"
    by (subst tags_step_ok [OF one]) (rule Cons.IH [OF rest])
  moreover have "tags(fst (tag_entry t) \<mapsto> snd (tag_entry t)) ++ map_of (rev (map tag_entry ts)) =
        tags ++ map_of (rev (map tag_entry (t # ts)))"
  proof -
    obtain k v where kv: "tag_entry t = (k, v)"
      by (cases "tag_entry t")
    have "tags ++ map_of (rev (map tag_entry (t # ts))) =
          tags ++ (map_of [(k, v)] ++ map_of (rev (map tag_entry ts)))"
      by (simp only: list.map rev.simps map_of_append kv)
    also have "\<dots> = (tags ++ map_of [(k, v)]) ++ map_of (rev (map tag_entry ts))"
      by (simp only: map_add_assoc)
    also have "tags ++ map_of [(k, v)] = tags(k \<mapsto> v)"
      by simp
    finally have "tags ++ map_of (rev (map tag_entry (t # ts))) =
          tags(k \<mapsto> v) ++ map_of (rev (map tag_entry ts))" .
    then show ?thesis
      by (simp only: kv fst_conv snd_conv)
  qed
  ultimately show ?case by (simp only:)
qed

lemma tags_first_bad:
  "find (\<lambda>t. count_list t CHR ''='' \<noteq> 1) ts = Some bad \<Longrightarrow>
   runCreatePlaceIndex_tags tags ts = Inl (Error (''invalid tag: '' @ bad))"
proof (induction ts arbitrary: tags)
  case Nil
  then show ?case by simp
next
  case (Cons t ts)
  show ?case
  proof (cases "count_list t CHR ''='' = 1")
    case True
    with Cons.prems have "find (\<lambda>t. count_list t CHR ''='' \<noteq> 1) ts = Some bad"
      by simp
    then have "runCreatePlaceIndex_tags (tags(fst (tag_entry t) \<mapsto> snd (tag_entry t))) ts =
        Inl (Error (''invalid tag: '' @ bad))"
      by (rule Cons.IH)
    then show ?thesis
      by (subst tags_step_ok [OF True])
  next
    case False
    with Cons.prems have "t = bad" by simp
    with tags_step_bad [OF False] show ?thesis by simp
  qed
qed

lemma tag_entry_form:
  "CHR ''='' \<notin> set k \<Longrightarrow> CHR ''='' \<notin> set v \<Longrightarrow>
   count_list (k @ ''='' @ v) CHR ''='' = 1 \<and> tag_entry (k @ ''='' @ v) = (k, v)"
proof -
  assume k: "CHR ''='' \<notin> set k" and v: "CHR ''='' \<notin> set v"
  have d: "dropWhile (\<lambda>c. c \<noteq> CHR ''='') (k @ CHR ''='' # v) = CHR ''='' # v"
    using k by (induction k) auto
  have t: "takeWhile (\<lambda>c. c \<noteq> CHR ''='') (k @ CHR ''='' # v) = k"
    using k by (induction k) auto
  show ?thesis
    using k v by (simp add: tag_entry_def d t count_list_0_iff)
qed


lemma PreRunE_same: "cmdText_PreRunE flags = cmdSuggestion_PreRunE flags"
  by (simp only: cmdText_PreRunE_def cmdSuggestion_PreRunE_def)

lemma setup_loc_defaults:
  assumes "setup_loc env flags = Inr c"
  shows "indexService c = ''Here'' \<and> intendedUse c = ''SingleUse'' \<and> language c = ''en'' \<and>
    pricingPlan c = ''RequestBasedUsage'' \<and> indexName c = flags_indexName flags"
proof -
  have c: "c = New (AWS_REGION env)
      [SetLogger, SetAWSProfile (AwsProfile env), SetAWSRegion (AwsRegion env),
       SetIndexName (flags_indexName flags)]"
    using assms by (simp add: setup_loc_def split: if_splits)
  show ?thesis
    unfolding c
    by (simp add: New_def SetLogger_def SetAWSProfile_def SetAWSRegion_def SetIndexName_def
        zero_Config_def Let_def)
qed

lemma run_command_Inr:
  assumes "run_command pre run env flags = Inr call"
  shows "\<exists>c. setup_loc env flags = Inr c \<and> pre flags = None \<and> run c flags = Inr call"
  using assms by (auto simp add: run_command_def split: sum.splits option.splits)

section \<open>The claims\<close>

text \<open>
  C1. Whatever the values of lat, lon, x1, x2, y1 and y2, the request of a suggestion
  or text search has no bias position and no bounding box: it carries the index name,
  the free text, the list of countries and the language, and nothing else. Changing
  the six flags does not change the request.
\<close>

theorem search_requests_without_bias_and_bbox:
  "runSearchSuggestion location flags =
     Inr (CallSearchPlaceIndexForSuggestions
       \<lparr>sps_IndexName = Some (indexName location), sps_Text = Some (flags_text flags),
        sps_BiasPosition = None, sps_FilterBBox = None,
        sps_FilterCountries = flags_countries flags,
        sps_Language = Some (language location)\<rparr>)
   \<and> runSearchText location flags =
     Inr (CallSearchPlaceIndexForText
       \<lparr>spt_IndexName = Some (indexName location), spt_Text = Some (flags_text flags),
        spt_BiasPosition = None, spt_FilterBBox = None,
        spt_FilterCountries = flags_countries flags,
        spt_Language = Some (language location)\<rparr>)
   \<and> SearchPlaceIndexForSuggestions config (Some search) =
     Inr (CallSearchPlaceIndexForSuggestions
       \<lparr>sps_IndexName = Some (indexName config), sps_Text = Text search,
        sps_BiasPosition = None, sps_FilterBBox = None,
        sps_FilterCountries = FilterCountries search,
        sps_Language = Some (language config)\<rparr>)
   \<and> SearchPlaceIndexForText config (Some search) =
     Inr (CallSearchPlaceIndexForText
       \<lparr>spt_IndexName = Some (indexName config), spt_Text = Text search,
        spt_BiasPosition = None, spt_FilterBBox = None,
        spt_FilterCountries = FilterCountries search,
        spt_Language = Some (language config)\<rparr>)
   \<and> runSearchSuggestion location
       (flags\<lparr>flags_lat := lat, flags_lon := lon, flags_x1 := x1, flags_x2 := x2,
          flags_y1 := y1, flags_y2 := y2\<rparr>) = runSearchSuggestion location flags
   \<and> runSearchText location
       (flags\<lparr>flags_lat := lat, flags_lon := lon, flags_x1 := x1, flags_x2 := x2,
          flags_y1 := y1, flags_y2 := y2\<rparr>) = runSearchText location flags"
  by (simp add: runSearchSuggestion_def runSearchText_def SearchPlaceIndexForSuggestions_def
      SearchPlaceIndexForText_def)

text \<open>
  C2, as amended. For every input, the validator of the suggestion command and that
  of the text command reject a nonzero latitude with a zero longitude with the message
  "latitude is set but longitude is not", and a zero latitude with a nonzero longitude
  with "longitude is set but latitude is not". When the bounding box is itself all
  zero or all nonzero, they accept exactly when latitude and longitude are both zero
  or both nonzero.
\<close>

theorem latlon_validation:
  "(f64_ne_zero (flags_lat flags) \<and> f64_eq_zero (flags_lon flags) \<longrightarrow>
      cmdSuggestion_PreRunE flags = Some (Error ''latitude is set but longitude is not'') \<and>
      cmdText_PreRunE flags = Some (Error ''latitude is set but longitude is not''))
   \<and> (f64_eq_zero (flags_lat flags) \<and> f64_ne_zero (flags_lon flags) \<longrightarrow>
      cmdSuggestion_PreRunE flags = Some (Error ''longitude is set but latitude is not'') \<and>
      cmdText_PreRunE flags = Some (Error ''longitude is set but latitude is not''))
   \<and> (bbox_all_or_nothing flags \<longrightarrow>
      (cmdSuggestion_PreRunE flags = None \<longleftrightarrow>
         (f64_eq_zero (flags_lat flags) \<and> f64_eq_zero (flags_lon flags) \<or>
          f64_ne_zero (flags_lat flags) \<and> f64_ne_zero (flags_lon flags))) \<and>
      (cmdText_PreRunE flags = None \<longleftrightarrow>
         (f64_eq_zero (flags_lat flags) \<and> f64_eq_zero (flags_lon flags) \<or>
          f64_ne_zero (flags_lat flags) \<and> f64_ne_zero (flags_lon flags))))"
  unfolding PreRunE_same
  by (auto simp add: cmdSuggestion_PreRunE_def bbox_all_or_nothing_def f64_ne_zero_def)

theorem latlon_validation_witness:
  "cmdSuggestion_PreRunE (init_Flags\<lparr>flags_lat := f64_10\<rparr>) =
     Some (Error ''latitude is set but longitude is not'')
   \<and> cmdText_PreRunE (init_Flags\<lparr>flags_lon := f64_10\<rparr>) =
     Some (Error ''longitude is set but latitude is not'')
   \<and> bbox_all_or_nothing (init_Flags\<lparr>flags_lat := f64_40, flags_lon := f64_neg73\<rparr>)
   \<and> cmdSuggestion_PreRunE (init_Flags\<lparr>flags_lat := f64_40, flags_lon := f64_neg73\<rparr>) = None
   \<and> cmdText_PreRunE init_Flags = None"
  using latlon_validation [of "init_Flags\<lparr>flags_lat := f64_10\<rparr>"]
    latlon_validation [of "init_Flags\<lparr>flags_lon := f64_10\<rparr>"]
    latlon_validation [of "init_Flags\<lparr>flags_lat := f64_40, flags_lon := f64_neg73\<rparr>"]
    latlon_validation [of init_Flags]
  by (simp add: init_Flags_def bbox_all_or_nothing_def f64_defs)

text \<open>
  C2 as first stated does not hold: acceptance does not depend on latitude and
  longitude alone. With latitude and longitude both zero and x1 nonzero while x2, y1
  and y2 are zero, both validators reject, with the message for x1.
\<close>

theorem latlon_validation_counterexample:
  "f64_eq_zero (flags_lat (init_Flags\<lparr>flags_x1 := f64_1\<rparr>))
   \<and> f64_eq_zero (flags_lon (init_Flags\<lparr>flags_x1 := f64_1\<rparr>))
   \<and> cmdSuggestion_PreRunE (init_Flags\<lparr>flags_x1 := f64_1\<rparr>) =
       Some (Error ''x1 is set but x2 or y1 or y2 is not'')
   \<and> cmdText_PreRunE (init_Flags\<lparr>flags_x1 := f64_1\<rparr>) =
       Some (Error ''x1 is set but x2 or y1 or y2 is not'')
   \<and> cmdSuggestion_PreRunE (init_Flags\<lparr>flags_x1 := f64_1\<rparr>) \<noteq> None
   \<and> cmdText_PreRunE (init_Flags\<lparr>flags_x1 := f64_1\<rparr>) \<noteq> None"
  by (simp add: cmdSuggestion_PreRunE_def cmdText_PreRunE_def init_Flags_def f64_defs)

text \<open>
  C3, as amended. When latitude and longitude pass (both zero or both nonzero), the
  validator of the suggestion command and that of the text command accept exactly
  when x1, x2, y1 and y2 are all zero or all nonzero. Otherwise both reject with the
  same message, fixed by the first nonzero component in the order x1, x2, y1, y2: it
  reports that component as set and lists its three companions, whichever of them is
  missing.
\<close>

theorem bbox_validation:
  "latlon_all_or_nothing flags \<longrightarrow>
     (cmdSuggestion_PreRunE flags = None \<longleftrightarrow> bbox_all_or_nothing flags)
   \<and> (cmdText_PreRunE flags = None \<longleftrightarrow> bbox_all_or_nothing flags)
   \<and> (\<not> bbox_all_or_nothing flags \<longrightarrow>
        cmdText_PreRunE flags = cmdSuggestion_PreRunE flags
      \<and> cmdSuggestion_PreRunE flags =
        Some (Error
          (if f64_ne_zero (flags_x1 flags) then ''x1 is set but x2 or y1 or y2 is not''
           else if f64_ne_zero (flags_x2 flags) then ''x2 is set but x1 or y1 or y2 is not''
           else if f64_ne_zero (flags_y1 flags) then ''y1 is set but x1 or x2 or y2 is not''
           else ''y2 is set but x1 or x2 or y1 is not'')))"
  unfolding PreRunE_same
  by (auto simp add: cmdSuggestion_PreRunE_def bbox_all_or_nothing_def latlon_all_or_nothing_def
      f64_ne_zero_def)

theorem bbox_validation_witness:
  "latlon_all_or_nothing (init_Flags\<lparr>flags_x2 := f64_1, flags_y2 := f64_1\<rparr>)
   \<and> \<not> bbox_all_or_nothing (init_Flags\<lparr>flags_x2 := f64_1, flags_y2 := f64_1\<rparr>)
   \<and> cmdSuggestion_PreRunE (init_Flags\<lparr>flags_x2 := f64_1, flags_y2 := f64_1\<rparr>) =
       Some (Error ''x2 is set but x1 or y1 or y2 is not'')
   \<and> cmdText_PreRunE (init_Flags\<lparr>flags_x2 := f64_1, flags_y2 := f64_1\<rparr>) =
       Some (Error ''x2 is set but x1 or y1 or y2 is not'')
   \<and> bbox_all_or_nothing
       (init_Flags\<lparr>flags_x1 := f64_1, flags_x2 := f64_10, flags_y1 := f64_40, flags_y2 := f64_neg73\<rparr>)
   \<and> cmdSuggestion_PreRunE
       (init_Flags\<lparr>flags_x1 := f64_1, flags_x2 := f64_10, flags_y1 := f64_40, flags_y2 := f64_neg73\<rparr>) = None"
  using bbox_validation [of "init_Flags\<lparr>flags_x2 := f64_1, flags_y2 := f64_1\<rparr>"]
    bbox_validation [of "init_Flags\<lparr>flags_x1 := f64_1, flags_x2 := f64_10, flags_y1 := f64_40, flags_y2 := f64_neg73\<rparr>"]
  by (simp add: init_Flags_def bbox_all_or_nothing_def latlon_all_or_nothing_def f64_defs)

text \<open>
  C3 as first stated does not hold. With x1 and x2 nonzero and y1 and y2 zero, the
  component x2 is nonzero and its companion y1 is zero, yet the message reports x1
  as the set component, not x2. And the message for x1 is the same whether the missing
  companion is x2 or y2: it does not single out the first missing one.
\<close>

theorem bbox_validation_counterexample:
  "f64_ne_zero (flags_x2 (init_Flags\<lparr>flags_x1 := f64_1, flags_x2 := f64_1\<rparr>))
   \<and> f64_eq_zero (flags_y1 (init_Flags\<lparr>flags_x1 := f64_1, flags_x2 := f64_1\<rparr>))
   \<and> cmdSuggestion_PreRunE (init_Flags\<lparr>flags_x1 := f64_1, flags_x2 := f64_1\<rparr>) =
       Some (Error ''x1 is set but x2 or y1 or y2 is not'')
   \<and> cmdText_PreRunE (init_Flags\<lparr>flags_x1 := f64_1, flags_x2 := f64_1\<rparr>) =
       Some (Error ''x1 is set but x2 or y1 or y2 is not'')
   \<and> cmdSuggestion_PreRunE (init_Flags\<lparr>flags_x1 := f64_1, flags_x2 := f64_1\<rparr>) \<noteq>
       Some (Error ''x2 is set but x1 or y1 or y2 is not'')
   \<and> cmdSuggestion_PreRunE (init_Flags\<lparr>flags_x1 := f64_1, flags_y1 := f64_1, flags_y2 := f64_1\<rparr>) =
       cmdSuggestion_PreRunE (init_Flags\<lparr>flags_x1 := f64_1, flags_x2 := f64_1, flags_y1 := f64_1\<rparr>)"
  by (simp add: cmdSuggestion_PreRunE_def cmdText_PreRunE_def init_Flags_def f64_defs)

text \<open>
  C4. Parsing the tags of create-index: when every tag string contains exactly one
  \<open>=\<close>, the result is the mapping with the entry \<open>k \<mapsto> v\<close> for every string \<open>k=v\<close> (a
  later string for the same key wins); a string \<open>k=v\<close> alone gives \<open>{k: v}\<close>. When some
  tag string does not contain exactly one \<open>=\<close>, parsing fails, before any request is
  built, with the error "invalid tag: " followed by the first such string; so it does
  for \<open>novalue\<close> and for \<open>a=b=c\<close>.
\<close>

theorem tag_parsing:
  "((\<forall>t \<in> set ts. count_list t CHR ''='' = 1) \<longrightarrow>
      runCreatePlaceIndex_tags Map.empty ts = Inr (map_of (rev (map tag_entry ts))))
   \<and> (find (\<lambda>t. count_list t CHR ''='' \<noteq> 1) ts = Some bad \<longrightarrow>
      runCreatePlaceIndex_tags Map.empty ts = Inl (Error (''invalid tag: '' @ bad)) \<and>
      runCreatePlaceIndex location (flags\<lparr>flags_tags := ts\<rparr>) = Inl (Error (''invalid tag: '' @ bad)))
   \<and> (CHR ''='' \<notin> set k \<and> CHR ''='' \<notin> set v \<longrightarrow>
      tag_entry (k @ ''='' @ v) = (k, v) \<and>
      runCreatePlaceIndex_tags Map.empty [k @ ''='' @ v] = Inr [k \<mapsto> v])
   \<and> runCreatePlaceIndex_tags Map.empty [''novalue''] = Inl (Error ''invalid tag: novalue'')
   \<and> runCreatePlaceIndex_tags Map.empty [''a=b=c''] = Inl (Error ''invalid tag: a=b=c'')"
proof (intro conjI impI)
  assume "\<forall>t \<in> set ts. count_list t CHR ''='' = 1"
  from tags_all_ok [OF this, of Map.empty]
  show "runCreatePlaceIndex_tags Map.empty ts = Inr (map_of (rev (map tag_entry ts)))"
    by simp
next
  assume b: "find (\<lambda>t. count_list t CHR ''='' \<noteq> 1) ts = Some bad"
  show "runCreatePlaceIndex_tags Map.empty ts = Inl (Error (''invalid tag: '' @ bad))"
    by (rule tags_first_bad [OF b])
  then show "runCreatePlaceIndex location (flags\<lparr>flags_tags := ts\<rparr>) =
      Inl (Error (''invalid tag: '' @ bad))"
    by (simp add: runCreatePlaceIndex_def)
next
  assume kv: "CHR ''='' \<notin> set k \<and> CHR ''='' \<notin> set v"
  then have f: "count_list (k @ ''='' @ v) CHR ''='' = 1 \<and> tag_entry (k @ ''='' @ v) = (k, v)"
    using tag_entry_form [of k v] by blast
  from f show "tag_entry (k @ ''='' @ v) = (k, v)"
    by simp
  have "runCreatePlaceIndex_tags Map.empty [k @ ''='' @ v] =
      runCreatePlaceIndex_tags (Map.empty(fst (tag_entry (k @ ''='' @ v)) \<mapsto> snd (tag_entry (k @ ''='' @ v)))) []"
    using f by (simp only: tags_step_ok)
  then show "runCreatePlaceIndex_tags Map.empty [k @ ''='' @ v] = Inr [k \<mapsto> v]"
    using f by simp
next
  show "runCreatePlaceIndex_tags Map.empty [''novalue''] = Inl (Error ''invalid tag: novalue'')"
    using tags_step_bad [of "''novalue''" Map.empty "[]"] by simp
next
  show "runCreatePlaceIndex_tags Map.empty [''a=b=c''] = Inl (Error ''invalid tag: a=b=c'')"
    using tags_step_bad [of "''a=b=c''" Map.empty "[]"] by simp
qed


theorem tag_parsing_witness:
  "runCreatePlaceIndex_tags Map.empty [''env=prod'', ''a=1''] = Inr [''env'' \<mapsto> ''prod'', ''a'' \<mapsto> ''1'']
   \<and> runCreatePlaceIndex_tags Map.empty [''k=v'', ''novalue'', ''a=b=c''] =
       Inl (Error ''invalid tag: novalue'')
   \<and> runCreatePlaceIndex_tags Map.empty [''env=prod''] = Inr [''env'' \<mapsto> ''prod'']"
  using tag_parsing [where ts = "[''env=prod'', ''a=1'']"]
    tag_parsing [where ts = "[''k=v'', ''novalue'', ''a=b=c'']" and bad = "''novalue''"]
    tag_parsing [where k = "''env''" and v = "''prod''"]
  by (simp add: tag_entry_def)

text \<open>
  C10. A tag string with exactly one \<open>=\<close> is accepted also when its key or its value is
  empty: \<open>=v\<close> gives the entry with the empty key and the value \<open>v\<close>, and \<open>k=\<close> gives the
  entry with the key \<open>k\<close> and the empty value.
\<close>

theorem tag_parsing_empty_key_or_value:
  "runCreatePlaceIndex_tags Map.empty [''=v''] = Inr [[] \<mapsto> ''v'']
   \<and> runCreatePlaceIndex_tags Map.empty [''k=''] = Inr [''k'' \<mapsto> []]
   \<and> (CHR ''='' \<notin> set v \<longrightarrow> runCreatePlaceIndex_tags Map.empty [''='' @ v] = Inr [[] \<mapsto> v])
   \<and> (CHR ''='' \<notin> set k \<longrightarrow> runCreatePlaceIndex_tags Map.empty [k @ ''=''] = Inr [k \<mapsto> []])
   \<and> (count_list tag CHR ''='' = 1 \<longrightarrow>
        runCreatePlaceIndex_tags tags [tag] = Inr (tags(fst (tag_entry tag) \<mapsto> snd (tag_entry tag))))"
proof -
  have one: "count_list tag CHR ''='' = 1 \<Longrightarrow>
      runCreatePlaceIndex_tags tags [tag] = Inr (tags(fst (tag_entry tag) \<mapsto> snd (tag_entry tag)))"
    for tag tags
    using tags_step_ok [of tag tags "[]"] by (simp only: runCreatePlaceIndex_tags.simps(1))
  have v: "CHR ''='' \<notin> set v \<Longrightarrow> runCreatePlaceIndex_tags Map.empty [''='' @ v] = Inr [[] \<mapsto> v]"
    for v
    using one [of "''='' @ v" Map.empty] tag_entry_form [of "[]" v] by simp
  have k: "CHR ''='' \<notin> set k \<Longrightarrow> runCreatePlaceIndex_tags Map.empty [k @ ''=''] = Inr [k \<mapsto> []]"
    for k
    using one [of "k @ ''=''" Map.empty] tag_entry_form [of k "[]"] by simp
  show ?thesis
    using one [of tag tags] v [of "''v''"] k [of "''k''"] v [of v] k [of k] by simp
qed

theorem tag_parsing_empty_key_or_value_witness:
  "runCreatePlaceIndex_tags Map.empty [''='' @ ''prod''] = Inr [[] \<mapsto> ''prod'']
   \<and> runCreatePlaceIndex_tags Map.empty [''env'' @ ''=''] = Inr [''env'' \<mapsto> []]
   \<and> runCreatePlaceIndex_tags [''a'' \<mapsto> ''1''] [''=''] = Inr [''a'' \<mapsto> ''1'', [] \<mapsto> []]"
  using tag_parsing_empty_key_or_value [where v = "''prod''" and k = "''env''" and tag = "''=''"
      and tags = "[''a'' \<mapsto> ''1'']"]
  by (simp add: tag_entry_def)

text \<open>
  C6. The position search puts the longitude first and the latitude second in the
  coordinate pair of its request; the command line \<open>--index foo --lat 40.0 --lon -73.0\<close>
  gives the pair \<open>(-73.0, 40.0)\<close>.
\<close>

theorem position_longitude_first:
  "SearchPlaceIndexForPosition config (Some latLon) =
     Inr (CallSearchPlaceIndexForPosition
       \<lparr>spp_IndexName = Some (indexName config), spp_Language = Some (language config),
        spp_Position = [Longitude latLon, Latitude latLon]\<rparr>)
   \<and> runSearchPosition location flags =
     Inr (CallSearchPlaceIndexForPosition
       \<lparr>spp_IndexName = Some (indexName location), spp_Language = Some (language location),
        spp_Position = [flags_lon flags, flags_lat flags]\<rparr>)
   \<and> cmdPosition example_Environment
       (init_Flags\<lparr>flags_indexName := ''foo'', flags_lat := f64_40, flags_lon := f64_neg73\<rparr>) =
     Inr (CallSearchPlaceIndexForPosition
       \<lparr>spp_IndexName = Some ''foo'', spp_Language = Some ''en'',
        spp_Position = [f64_neg73, f64_40]\<rparr>)"
  by (simp add: SearchPlaceIndexForPosition_def runSearchPosition_def cmdPosition_def
      run_command_def setup_loc_def example_Environment_def init_Flags_def New_def
      SetLogger_def SetAWSProfile_def SetAWSRegion_def SetIndexName_def zero_Config_def)

text \<open>
  C7. Describe with an empty index name builds its request with the configured index
  name, and fails (with "indexName not set") exactly when the configured name is
  empty too. With a nonempty index name the request carries that name, whatever the
  configuration is: nothing is checked.
\<close>

theorem describe_index_name:
  "(name = [] \<and> indexName config \<noteq> [] \<longrightarrow>
      DescribePlaceIndex config name =
        Inr (CallDescribePlaceIndex \<lparr>dpi_IndexName = Some (indexName config)\<rparr>))
   \<and> (name = [] \<longrightarrow>
      ((\<exists>err. DescribePlaceIndex config name = Inl err) \<longleftrightarrow> indexName config = []))
   \<and> (name = [] \<and> indexName config = [] \<longrightarrow>
      DescribePlaceIndex config name = Inl (Error ''indexName not set''))
   \<and> (name \<noteq> [] \<longrightarrow>
      DescribePlaceIndex config name = Inr (CallDescribePlaceIndex \<lparr>dpi_IndexName = Some name\<rparr>))"
  by (simp add: DescribePlaceIndex_def sanity_def)

theorem describe_index_name_witness:
  "DescribePlaceIndex (zero_Config\<lparr>indexName := ''dflt''\<rparr>) [] =
     Inr (CallDescribePlaceIndex \<lparr>dpi_IndexName = Some ''dflt''\<rparr>)
   \<and> DescribePlaceIndex zero_Config [] = Inl (Error ''indexName not set'')
   \<and> DescribePlaceIndex zero_Config ''foo'' =
     Inr (CallDescribePlaceIndex \<lparr>dpi_IndexName = Some ''foo''\<rparr>)"
  using describe_index_name [of "[]" "zero_Config\<lparr>indexName := ''dflt''\<rparr>"]
    describe_index_name [of "[]" zero_Config]
    describe_index_name [of "''foo''" zero_Config]
  by (simp add: zero_Config_def)

text \<open>
  C5, as amended. When the configured index name is empty, create-index,
  delete-index, update-index and describe-index with an empty name fail with the
  error "indexName not set" and issue no call. List-indexes takes no index name: it
  issues its call whatever the configuration is.
\<close>

theorem index_name_unset:
  "(indexName config = [] \<longrightarrow>
      CreatePlaceIndex config description tags = Inl (Error ''indexName not set'') \<and>
      DeletePlaceIndex config = Inl (Error ''indexName not set'') \<and>
      DescribePlaceIndex config [] = Inl (Error ''indexName not set'') \<and>
      UpdatePlaceIndex config description = Inl (Error ''indexName not set''))
   \<and> ListPlaceIndexes config = Inr CallListPlaceIndexes"
  by (simp add: CreatePlaceIndex_def DeletePlaceIndex_def DescribePlaceIndex_def
      UpdatePlaceIndex_def ListPlaceIndexes_def sanity_def)

theorem index_name_unset_witness:
  "indexName zero_Config = []
   \<and> CreatePlaceIndex zero_Config ''bar'' (Some Map.empty) = Inl (Error ''indexName not set'')
   \<and> DeletePlaceIndex zero_Config = Inl (Error ''indexName not set'')
   \<and> DescribePlaceIndex zero_Config [] = Inl (Error ''indexName not set'')
   \<and> UpdatePlaceIndex zero_Config ''bar'' = Inl (Error ''indexName not set'')"
  using index_name_unset [of zero_Config "''bar''" "Some Map.empty"]
  by (simp add: zero_Config_def)


text \<open>
  C5 as first stated does not hold: with no index name given and none configured,
  list-indexes does not fail, it issues its call.
\<close>

theorem index_name_unset_counterexample:
  "indexName (New [] [SetIndexName []]) = []
   \<and> ListPlaceIndexes (New [] [SetIndexName []]) = Inr CallListPlaceIndexes
   \<and> cmdList example_Environment init_Flags = Inr CallListPlaceIndexes"
  by (simp add: ListPlaceIndexes_def cmdList_def runListIndexes_def
      run_command_def setup_loc_def example_Environment_def init_Flags_def New_def
      SetIndexName_def zero_Config_def)

text \<open>
  C9, as amended. Whatever the flags and the settings of the configuration file, a
  create-index request built by the command line carries the data source "Here", the
  pricing plan "RequestBasedUsage" and the intended use "SingleUse"; an update-index
  request carries the pricing plan "RequestBasedUsage" and the intended use
  "SingleUse", and no data source, for which its structure has no field; the request
  of each of the three searches carries the language "en".
\<close>

theorem cli_requests_carry_defaults:
  "(cmdCreate env flags = Inr call \<longrightarrow>
      (\<exists>r. call = CallCreatePlaceIndex r \<and> cpi_DataSource r = Some ''Here'' \<and>
         cpi_PricingPlan r = ''RequestBasedUsage'' \<and>
         cpi_DataSourceConfiguration r = Some \<lparr>IntendedUse = ''SingleUse''\<rparr>))
   \<and> (cmdUpdate env flags = Inr call \<longrightarrow>
      (\<exists>r. call = CallUpdatePlaceIndex r \<and> upi_PricingPlan r = ''RequestBasedUsage'' \<and>
         upi_DataSourceConfiguration r = Some \<lparr>IntendedUse = ''SingleUse''\<rparr>) \<and>
      request_DataSource call = None)
   \<and> (cmdPosition env flags = Inr call \<longrightarrow>
      (\<exists>r. call = CallSearchPlaceIndexForPosition r \<and> spp_Language r = Some ''en''))
   \<and> (cmdSuggestion env flags = Inr call \<longrightarrow>
      (\<exists>r. call = CallSearchPlaceIndexForSuggestions r \<and> sps_Language r = Some ''en''))
   \<and> (cmdText env flags = Inr call \<longrightarrow>
      (\<exists>r. call = CallSearchPlaceIndexForText r \<and> spt_Language r = Some ''en''))"
proof (intro conjI impI)
  assume "cmdCreate env flags = Inr call"
  then obtain c where c: "setup_loc env flags = Inr c" and r: "runCreatePlaceIndex c flags = Inr call"
    unfolding cmdCreate_def by (blast dest: run_command_Inr)
  from r setup_loc_defaults [OF c]
  show "\<exists>r. call = CallCreatePlaceIndex r \<and> cpi_DataSource r = Some ''Here'' \<and>
         cpi_PricingPlan r = ''RequestBasedUsage'' \<and>
         cpi_DataSourceConfiguration r = Some \<lparr>IntendedUse = ''SingleUse''\<rparr>"
    by (auto simp add: runCreatePlaceIndex_def CreatePlaceIndex_def
        split: sum.splits option.splits)
next
  assume "cmdUpdate env flags = Inr call"
  then obtain c where c: "setup_loc env flags = Inr c" and r: "runUpdatePlaceIndex c flags = Inr call"
    unfolding cmdUpdate_def by (blast dest: run_command_Inr)
  from r setup_loc_defaults [OF c]
  show "\<exists>r. call = CallUpdatePlaceIndex r \<and> upi_PricingPlan r = ''RequestBasedUsage'' \<and>
         upi_DataSourceConfiguration r = Some \<lparr>IntendedUse = ''SingleUse''\<rparr>"
    by (auto simp add: runUpdatePlaceIndex_def UpdatePlaceIndex_def split: option.splits)
  from r show "request_DataSource call = None"
    by (auto simp add: runUpdatePlaceIndex_def UpdatePlaceIndex_def split: option.splits)
next
  assume "cmdPosition env flags = Inr call"
  then obtain c where c: "setup_loc env flags = Inr c" and r: "runSearchPosition c flags = Inr call"
    unfolding cmdPosition_def by (blast dest: run_command_Inr)
  from r setup_loc_defaults [OF c]
  show "\<exists>r. call = CallSearchPlaceIndexForPosition r \<and> spp_Language r = Some ''en''"
    by (auto simp add: runSearchPosition_def SearchPlaceIndexForPosition_def)
next
  assume "cmdSuggestion env flags = Inr call"
  then obtain c where c: "setup_loc env flags = Inr c" and r: "runSearchSuggestion c flags = Inr call"
    unfolding cmdSuggestion_def by (blast dest: run_command_Inr)
  from r setup_loc_defaults [OF c]
  show "\<exists>r. call = CallSearchPlaceIndexForSuggestions r \<and> sps_Language r = Some ''en''"
    by (auto simp add: runSearchSuggestion_def SearchPlaceIndexForSuggestions_def)
next
  assume "cmdText env flags = Inr call"
  then obtain c where c: "setup_loc env flags = Inr c" and r: "runSearchText c flags = Inr call"
    unfolding cmdText_def by (blast dest: run_command_Inr)
  from r setup_loc_defaults [OF c]
  show "\<exists>r. call = CallSearchPlaceIndexForText r \<and> spt_Language r = Some ''en''"
    by (auto simp add: runSearchText_def SearchPlaceIndexForText_def)
qed


theorem cli_requests_carry_defaults_witness:
  "cmdCreate example_Environment
       (init_Flags\<lparr>flags_indexName := ''foo'', flags_description := ''bar'',
          flags_tags := [''env=prod'']\<rparr>) =
     Inr (CallCreatePlaceIndex
       \<lparr>cpi_DataSource = Some ''Here'',
        cpi_DataSourceConfiguration = Some \<lparr>IntendedUse = ''SingleUse''\<rparr>,
        cpi_Description = Some ''bar'', cpi_IndexName = Some ''foo'',
        cpi_PricingPlan = ''RequestBasedUsage'', cpi_Tags = [''env'' \<mapsto> ''prod'']\<rparr>)
   \<and> cmdUpdate example_Environment (init_Flags\<lparr>flags_indexName := ''foo''\<rparr>) =
     Inr (CallUpdatePlaceIndex
       \<lparr>upi_IndexName = Some ''foo'',
        upi_DataSourceConfiguration = Some \<lparr>IntendedUse = ''SingleUse''\<rparr>,
        upi_Description = Some [], upi_PricingPlan = ''RequestBasedUsage''\<rparr>)
   \<and> cmdPosition example_Environment (init_Flags\<lparr>flags_indexName := ''foo''\<rparr>) =
     Inr (CallSearchPlaceIndexForPosition
       \<lparr>spp_IndexName = Some ''foo'', spp_Language = Some ''en'', spp_Position = [0, 0]\<rparr>)
   \<and> cmdSuggestion example_Environment (init_Flags\<lparr>flags_indexName := ''foo''\<rparr>) =
     Inr (CallSearchPlaceIndexForSuggestions
       \<lparr>sps_IndexName = Some ''foo'', sps_Text = Some [], sps_BiasPosition = None,
        sps_FilterBBox = None, sps_FilterCountries = [], sps_Language = Some ''en''\<rparr>)
   \<and> cmdText example_Environment (init_Flags\<lparr>flags_indexName := ''foo''\<rparr>) =
     Inr (CallSearchPlaceIndexForText
       \<lparr>spt_IndexName = Some ''foo'', spt_Text = Some [], spt_BiasPosition = None,
        spt_FilterBBox = None, spt_FilterCountries = [], spt_Language = Some ''en''\<rparr>)"
  using cli_requests_carry_defaults [of example_Environment
      "init_Flags\<lparr>flags_indexName := ''foo'', flags_description := ''bar'',
          flags_tags := [''env=prod'']\<rparr>"
      "CallCreatePlaceIndex
       \<lparr>cpi_DataSource = Some ''Here'',
        cpi_DataSourceConfiguration = Some \<lparr>IntendedUse = ''SingleUse''\<rparr>,
        cpi_Description = Some ''bar'', cpi_IndexName = Some ''foo'',
        cpi_PricingPlan = ''RequestBasedUsage'', cpi_Tags = [''env'' \<mapsto> ''prod'']\<rparr>"]
    cli_requests_carry_defaults [of example_Environment "init_Flags\<lparr>flags_indexName := ''foo''\<rparr>"
      "CallUpdatePlaceIndex
       \<lparr>upi_IndexName = Some ''foo'',
        upi_DataSourceConfiguration = Some \<lparr>IntendedUse = ''SingleUse''\<rparr>,
        upi_Description = Some [], upi_PricingPlan = ''RequestBasedUsage''\<rparr>"]
    cli_requests_carry_defaults [of example_Environment "init_Flags\<lparr>flags_indexName := ''foo''\<rparr>"
      "CallSearchPlaceIndexForPosition
       \<lparr>spp_IndexName = Some ''foo'', spp_Language = Some ''en'', spp_Position = [0, 0]\<rparr>"]
    cli_requests_carry_defaults [of example_Environment "init_Flags\<lparr>flags_indexName := ''foo''\<rparr>"
      "CallSearchPlaceIndexForSuggestions
       \<lparr>sps_IndexName = Some ''foo'', sps_Text = Some [], sps_BiasPosition = None,
        sps_FilterBBox = None, sps_FilterCountries = [], sps_Language = Some ''en''\<rparr>"]
    cli_requests_carry_defaults [of example_Environment "init_Flags\<lparr>flags_indexName := ''foo''\<rparr>"
      "CallSearchPlaceIndexForText
       \<lparr>spt_IndexName = Some ''foo'', spt_Text = Some [], spt_BiasPosition = None,
        spt_FilterBBox = None, spt_FilterCountries = [], spt_Language = Some ''en''\<rparr>"]
  by (simp add: cmdCreate_def cmdUpdate_def cmdPosition_def cmdSuggestion_def cmdText_def
      runCreatePlaceIndex_def runUpdatePlaceIndex_def runSearchPosition_def
      runSearchSuggestion_def runSearchText_def CreatePlaceIndex_def UpdatePlaceIndex_def
      SearchPlaceIndexForPosition_def SearchPlaceIndexForSuggestions_def
      SearchPlaceIndexForText_def sanity_def cmdSuggestion_PreRunE_def cmdText_PreRunE_def
      f64_defs Split.simps
      run_command_def setup_loc_def example_Environment_def init_Flags_def New_def
      SetLogger_def SetAWSProfile_def SetAWSRegion_def SetIndexName_def zero_Config_def)

text \<open>
  C9 as first stated does not hold for update-index: its request carries no data
  source at all, so not the data source "Here".
\<close>

theorem cli_requests_carry_defaults_counterexample:
  "cmdUpdate example_Environment (init_Flags\<lparr>flags_indexName := ''foo'', flags_description := ''bar''\<rparr>) =
     Inr (CallUpdatePlaceIndex
       \<lparr>upi_IndexName = Some ''foo'',
        upi_DataSourceConfiguration = Some \<lparr>IntendedUse = ''SingleUse''\<rparr>,
        upi_Description = Some ''bar'', upi_PricingPlan = ''RequestBasedUsage''\<rparr>)
   \<and> request_DataSource (CallUpdatePlaceIndex
       \<lparr>upi_IndexName = Some ''foo'',
        upi_DataSourceConfiguration = Some \<lparr>IntendedUse = ''SingleUse''\<rparr>,
        upi_Description = Some ''bar'', upi_PricingPlan = ''RequestBasedUsage''\<rparr>) \<noteq> Some ''Here''"
  by (simp add: cmdUpdate_def runUpdatePlaceIndex_def UpdatePlaceIndex_def sanity_def
      run_command_def setup_loc_def example_Environment_def init_Flags_def New_def
      SetLogger_def SetAWSProfile_def SetAWSRegion_def SetIndexName_def zero_Config_def)

end
